theory Spec2Isabelle
  imports Main "HOL-Library.Sublist"
begin

section \<open>The detect step of the ce-go-function buildpack (cmd/detect/main.go)\<close>

text \<open>
  The program reads its arguments and environment, takes the module name from
  \<^verbatim>\<open>./go.mod\<close>, lists the Go files of the configured package directory, asks the
  detector of the library \<^verbatim>\<open>gofunctypechecker\<close> about each file in turn and, for the
  first detected function that passes the name filter, appends a descriptor to the plan
  file and exits with code 0. Every other path ends with exit code 100.

  The embedding is shallow: every function of \<^verbatim>\<open>main.go\<close> is a HOL function of the
  same name. What the program reads from its surroundings is a record \<open>World\<close>; what it
  does to them is an \<open>Outcome\<close>: the exit code, the sequence of lines it logged or printed,
  and the contents of the files it may have written.
\<close>

subsection \<open>Library functions the program calls\<close>

type_synonym error = string

text \<open>
  \<^verbatim>\<open>strings.Split(s, sep)\<close> for a separator of one byte: the pieces between the
  separators, in order; \<open>n\<close> separators give \<open>n + 1\<close> pieces, so the empty string gives
  one empty piece.
\<close>

fun strings_Split :: "string \<Rightarrow> char \<Rightarrow> string list" where
  "strings_Split [] sep = [[]]"
| "strings_Split (c # cs) sep =
     (if c = sep then [] # strings_Split cs sep
      else (case strings_Split cs sep of
              [] \<Rightarrow> [[c]]
            | p # ps \<Rightarrow> (c # p) # ps))"

text \<open>
  \<^verbatim>\<open>strings.Replace(s, old, new, 1)\<close>: the leftmost occurrence of \<open>old\<close> in \<open>s\<close> is
  replaced by \<open>new\<close>; \<open>s\<close> is returned as it is when \<open>old\<close> does not occur.
\<close>

fun strings_Replace1 :: "string \<Rightarrow> string \<Rightarrow> string \<Rightarrow> string" where
  "strings_Replace1 [] old new = (if old = [] then new else [])"
| "strings_Replace1 (c # cs) old new =
     (if prefix old (c # cs) then new @ drop (length old) (c # cs)
      else c # strings_Replace1 cs old new)"

text \<open>\<^verbatim>\<open>strings.HasSuffix\<close>.\<close>

definition strings_HasSuffix :: "string \<Rightarrow> string \<Rightarrow> bool" where
  "strings_HasSuffix s suf = suffix suf s"

text \<open>\<^verbatim>\<open>strings.Join\<close>, used by the model of \<^verbatim>\<open>filepath.Clean\<close>.\<close>

fun strings_Join :: "string list \<Rightarrow> string \<Rightarrow> string" where
  "strings_Join [] sep = []"
| "strings_Join [x] sep = x"
| "strings_Join (x # y # ys) sep = x @ sep @ strings_Join (y # ys) sep"

text \<open>
  \<^verbatim>\<open>filepath.Clean\<close> on a slash-separated path. The library walks the path element by
  element: empty elements and \<^verbatim>\<open>.\<close> are dropped, \<^verbatim>\<open>..\<close> removes the element before
  it when there is one that is not itself \<^verbatim>\<open>..\<close>, is dropped at the root of a rooted
  path and is kept otherwise. The result of an empty walk is \<^verbatim>\<open>.\<close> (or \<^verbatim>\<open>/\<close> for a
  rooted path). \<open>clean_elems\<close> keeps the elements written so far in reverse order.
\<close>

fun clean_elems :: "bool \<Rightarrow> string list \<Rightarrow> string list \<Rightarrow> string list" where
  "clean_elems rooted [] out = rev out"
| "clean_elems rooted (e # es) out =
     (if e = [] \<or> e = ''.'' then clean_elems rooted es out
      else if e = ''..'' then
        (case out of
           [] \<Rightarrow> clean_elems rooted es (if rooted then [] else [''..''])
         | t # ts \<Rightarrow>
             if t = ''..'' then clean_elems rooted es (''..'' # t # ts)
             else clean_elems rooted es ts)
      else clean_elems rooted es (e # out))"

definition filepath_Clean :: "string \<Rightarrow> string" where
  "filepath_Clean path =
     (case path of
        [] \<Rightarrow> ''.''
      | c # cs \<Rightarrow>
          let rooted = (c = CHR ''/'');
              body = strings_Join (clean_elems rooted (strings_Split path CHR ''/'') []) ''/''
          in if rooted then ''/'' @ body
             else if body = [] then ''.'' else body)"

text \<open>
  \<^verbatim>\<open>bufio.Scanner\<close> with its default split function \<^verbatim>\<open>ScanLines\<close>: the text is cut at
  every line feed, a last line without a line feed counts when it is not empty, and one
  carriage return at the end of a line is dropped. The scanner's buffer holds at most
  \<open>64 * 1024\<close> bytes, so \<^verbatim>\<open>Scan\<close> reports false at the first line of \<open>65536\<close> bytes or
  more (counted without its line feed), and the lines after it are never delivered.
\<close>

definition dropCR :: "string \<Rightarrow> string" where
  "dropCR l = (if l \<noteq> [] \<and> last l = CHR 0x0D then butlast l else l)"

definition MaxScanTokenSize :: nat where
  "MaxScanTokenSize = 64 * 1024"

definition scan_lines :: "string \<Rightarrow> string list" where
  "scan_lines content =
     (let segs = strings_Split content CHR 0x0A;
          raw = (if last segs = [] then butlast segs else segs)
      in map dropCR (takeWhile (\<lambda>l. length l < MaxScanTokenSize) raw))"

subsection \<open>Data of the detector library\<close>

record FunctionArg =
  ImportPath :: string
  Name :: string
  Pointer :: bool

record FunctionSignature =
  In :: "FunctionArg list"
  Out :: "FunctionArg list"

record FunctionDetails =
  Name :: string
  Package :: string
  Signature :: FunctionSignature

record Function =
  File :: string
  Source :: string

subsection \<open>Constants of the program\<close>

definition supportedFuncs :: string where
  \<open>supportedFuncs =
   ''\<newline>'' @
   ''Could not find a supported function signature. Examples of supported functions are\<newline>'' @
   ''shown below, also showing the imports that you can use. The function must also be visible\<newline>'' @
   ''outside of the package (capitalized, for example, Receive vs. receive).\<newline>'' @
   ''\<newline>'' @
   ''import (\<newline>'' @
   ''    "context"\<newline>'' @
   ''    event "github.com/cloudevents/sdk-go/v2"\<newline>'' @
   ''    "github.com/cloudevents/sdk-go/v2/protocol"\<newline>'' @
   '')\<newline>'' @
   ''\<newline>'' @
   ''The following function signatures are supported by this builder:\<newline>'' @
   ''func(event.Event)\<newline>'' @
   ''func(event.Event) protocol.Result\<newline>'' @
   ''func(event.Event) error\<newline>'' @
   ''func(context.Context, event.Event)\<newline>'' @
   ''func(context.Context, event.Event) protocol.Result\<newline>'' @
   ''func(context.Context, event.Event) error\<newline>'' @
   ''func(event.Event) *event.Event\<newline>'' @
   ''func(event.Event) (*event.Event, protocol.Result)\<newline>'' @
   ''func(event.Event) (*event.Event, error)\<newline>'' @
   ''func(context.Context, event.Event) *event.Event\<newline>'' @
   ''func(context.Context, event.Event) (*event.Event, protocol.Result)\<newline>'' @
   ''func(context.Context, event.Event) (*event.Event, error)\<newline>''\<close>

definition planFileFormat :: string where
  \<open>planFileFormat =
   ''\<newline>'' @
   ''[[provides]]\<newline>'' @
   ''name = "ce-go-function"\<newline>'' @
   ''[[requires]]\<newline>'' @
   ''name = "ce-go-function"\<newline>'' @
   ''[requires.metadata]\<newline>'' @
   ''package = "PACKAGE"\<newline>'' @
   ''function = "CE_GO_FUNCTION"\<newline>'' @
   ''protocol = "CE_PROTOCOL"\<newline>''\<close>

definition ceImport :: string where
  "ceImport = ''github.com/cloudevents/sdk-go/v2''"

definition ceProtocolImport :: string where
  "ceProtocolImport = ''github.com/cloudevents/sdk-go/v2/protocol''"

definition contextImport :: string where
  "contextImport = ''context''"

record EnvConfig =
  CEGoPackage :: string
  CEGoFunction :: string
  CEProtocol :: string

text \<open>
  \<open>validFunctions\<close>, entry by entry as the source lists them. A field the source leaves
  out has Go's zero value: the empty import path, \<open>False\<close> for \<open>Pointer\<close>, the empty
  sequence for \<open>Out\<close>.
\<close>

definition validFunctions :: "FunctionSignature list" where
  "validFunctions =
   [\<lparr>In = [\<lparr>ImportPath = ceImport, Name = ''Event'', Pointer = False\<rparr>],
     Out = []\<rparr>,
    \<lparr>In = [\<lparr>ImportPath = ceImport, Name = ''Event'', Pointer = False\<rparr>],
     Out = [\<lparr>ImportPath = ceProtocolImport, Name = ''Result'', Pointer = False\<rparr>]\<rparr>,
    \<lparr>In = [\<lparr>ImportPath = ceImport, Name = ''Event'', Pointer = False\<rparr>],
     Out = [\<lparr>ImportPath = [], Name = ''error'', Pointer = False\<rparr>]\<rparr>,
    \<lparr>In = [\<lparr>ImportPath = contextImport, Name = ''Context'', Pointer = False\<rparr>,
           \<lparr>ImportPath = ceImport, Name = ''Event'', Pointer = False\<rparr>],
     Out = []\<rparr>,
    \<lparr>In = [\<lparr>ImportPath = contextImport, Name = ''Context'', Pointer = False\<rparr>,
           \<lparr>ImportPath = ceImport, Name = ''Event'', Pointer = False\<rparr>],
     Out = [\<lparr>ImportPath = ceProtocolImport, Name = ''Result'', Pointer = False\<rparr>]\<rparr>,
    \<lparr>In = [\<lparr>ImportPath = contextImport, Name = ''Context'', Pointer = False\<rparr>,
           \<lparr>ImportPath = ceImport, Name = ''Event'', Pointer = False\<rparr>],
     Out = [\<lparr>ImportPath = [], Name = ''error'', Pointer = False\<rparr>]\<rparr>,
    \<lparr>In = [\<lparr>ImportPath = ceImport, Name = ''Event'', Pointer = False\<rparr>],
     Out = [\<lparr>ImportPath = ceImport, Name = ''Event'', Pointer = True\<rparr>]\<rparr>,
    \<lparr>In = [\<lparr>ImportPath = ceImport, Name = ''Event'', Pointer = False\<rparr>],
     Out = [\<lparr>ImportPath = ceImport, Name = ''Event'', Pointer = True\<rparr>,
            \<lparr>ImportPath = ceProtocolImport, Name = ''Result'', Pointer = False\<rparr>]\<rparr>,
    \<lparr>In = [\<lparr>ImportPath = ceImport, Name = ''Event'', Pointer = False\<rparr>],
     Out = [\<lparr>ImportPath = ceImport, Name = ''Event'', Pointer = True\<rparr>,
            \<lparr>ImportPath = [], Name = ''error'', Pointer = False\<rparr>]\<rparr>,
    \<lparr>In = [\<lparr>ImportPath = contextImport, Name = ''Context'', Pointer = False\<rparr>,
           \<lparr>ImportPath = ceImport, Name = ''Event'', Pointer = False\<rparr>],
     Out = [\<lparr>ImportPath = ceImport, Name = ''Event'', Pointer = True\<rparr>]\<rparr>,
    \<lparr>In = [\<lparr>ImportPath = contextImport, Name = ''Context'', Pointer = False\<rparr>,
           \<lparr>ImportPath = ceImport, Name = ''Event'', Pointer = False\<rparr>],
     Out = [\<lparr>ImportPath = ceImport, Name = ''Event'', Pointer = True\<rparr>,
            \<lparr>ImportPath = ceProtocolImport, Name = ''Result'', Pointer = False\<rparr>]\<rparr>,
    \<lparr>In = [\<lparr>ImportPath = contextImport, Name = ''Context'', Pointer = False\<rparr>,
           \<lparr>ImportPath = ceImport, Name = ''Event'', Pointer = False\<rparr>],
     Out = [\<lparr>ImportPath = ceImport, Name = ''Event'', Pointer = True\<rparr>,
            \<lparr>ImportPath = [], Name = ''error'', Pointer = False\<rparr>]\<rparr>]"

subsection \<open>The surroundings of a run and its outcome\<close>

text \<open>
  Everything the program logs or prints, in the order it does so. Each constructor is one
  call of \<^verbatim>\<open>log.Println\<close>, \<^verbatim>\<open>log.Printf\<close>, \<^verbatim>\<open>fmt.Println\<close> or \<^verbatim>\<open>fmt.Printf\<close> in the
  source, with the values it formats; \<open>RuntimePanic\<close> is Go's index-out-of-range panic.
\<close>

datatype event =
    LogArgs "string list"
  | LogEnviron string
  | LogUsage string
  | LogEnvConfigFailed error
  | PrintPieces "string list"
  | LogGoModFailed error
  | LogUsingPath string
  | LogPlanFile string
  | LogGlobFailed string error
  | LogProcessing string
  | LogError error
  | LogCheckFailed Function error
  | LogFound string string FunctionSignature
  | LogOpenFailed string error
  | LogWritePlanFailed error
  | Println string
  | RuntimePanic

text \<open>
  \<open>World\<close> is what a run reads. \<open>envConfig\<close> is the struct as \<^verbatim>\<open>envconfig.Process\<close> left
  it and \<open>envconfigErr\<close> the error it returned; \<open>goMod\<close> is the outcome of opening
  \<^verbatim>\<open>./go.mod\<close> (the error, or the bytes of the file, which the scanner is taken to
  read without an input error); \<open>Glob\<close> and \<open>ReadFile\<close> are
  \<^verbatim>\<open>filepath.Glob\<close> and \<^verbatim>\<open>ioutil.ReadFile\<close>; \<open>NewDetector c\<close> is the \<^verbatim>\<open>CheckFile\<close>
  method of the detector the library builds from the catalog \<open>c\<close> (a returned error is
  \<open>Inl\<close>, a nil result \<open>Inr None\<close>). \<open>files\<close> holds the contents of the files that exist
  before the run, \<open>OpenFile p\<close> is the error of opening \<open>p\<close> for appending, if any, and
  \<open>WriteString p s\<close> is \<open>Some (n, err)\<close> when writing \<open>s\<close> to \<open>p\<close> fails with \<open>err\<close> after
  \<open>n\<close> bytes.
\<close>

record World =
  Args :: "string list"
  Environ :: "string list"
  envConfig :: EnvConfig
  envconfigErr :: "error option"
  goMod :: "error + string"
  Glob :: "string \<Rightarrow> error + string list"
  ReadFile :: "string \<Rightarrow> error + string"
  NewDetector :: "FunctionSignature list \<Rightarrow> Function \<Rightarrow> error + FunctionDetails option"
  files :: "string \<Rightarrow> string option"
  OpenFile :: "string \<Rightarrow> error option"
  WriteString :: "string \<Rightarrow> string \<Rightarrow> (nat \<times> error) option"

record Outcome =
  exitCode :: int
  events :: "event list"
  filesAfter :: "string \<Rightarrow> string option"

definition logged :: "event list \<Rightarrow> Outcome \<Rightarrow> Outcome" where
  "logged evs r = r\<lparr>events := evs @ events r\<rparr>"

text \<open>The files a run opened and handed to the detector loop, in order.\<close>

fun processed :: "event list \<Rightarrow> string list" where
  "processed [] = []"
| "processed (LogProcessing f # evs) = f # processed evs"
| "processed (_ # evs) = processed evs"

subsection \<open>The program\<close>

text \<open>
  \<open>printSupportedFunctionsAndExit\<close> prints the help text with \<^verbatim>\<open>fmt.Println\<close> and ends
  the process with code 100.
\<close>

definition printSupportedFunctionsAndExit :: "event list \<Rightarrow> (string \<Rightarrow> string option) \<Rightarrow> Outcome" where
  "printSupportedFunctionsAndExit evs fs =
     \<lparr>exitCode = 100, events = evs @ [Println supportedFuncs], filesAfter = fs\<rparr>"

text \<open>
  \<open>readModuleName\<close> returns Go's pair of a string and an error (\<open>None\<close> is nil), with the
  lines it printed on the way. \<open>scanModule\<close> is its loop over the lines the scanner
  delivers.
\<close>

fun scanModule :: "string list \<Rightarrow> event list \<times> string \<times> error option" where
  "scanModule [] = ([], [], None)"
| "scanModule (l # ls) =
     (let pieces = strings_Split l CHR '' '' in
      if length pieces \<ge> 2 \<and> hd pieces = ''module''
      then ([PrintPieces pieces], hd (tl pieces), None)
      else (case scanModule ls of (evs, r) \<Rightarrow> (PrintPieces pieces # evs, r)))"

definition readModuleName :: "World \<Rightarrow> event list \<times> string \<times> error option" where
  "readModuleName w =
     (case goMod w of
        Inl err \<Rightarrow> ([], [], Some err)
      | Inr content \<Rightarrow> scanModule (scan_lines content))"

text \<open>
  \<open>writePlan\<close> either ends the process (\<open>Inl\<close> the exit code) or returns its error value
  (\<open>Inr\<close>, \<open>None\<close> for nil). The file is opened with \<^verbatim>\<open>O_APPEND|O_CREATE|O_WRONLY\<close>: a
  missing file is created empty and every byte written goes after the bytes already
  there. \<open>renderPlan\<close> is the three replacements of the source. The message of a failed
  open formats \<^verbatim>\<open>os.Args[2]\<close>, which panics when there are fewer than three arguments.
\<close>

definition renderPlan :: "string \<Rightarrow> string \<Rightarrow> string \<Rightarrow> string" where
  "renderPlan package function protocol =
     strings_Replace1
       (strings_Replace1
          (strings_Replace1 planFileFormat ''PACKAGE'' package)
          ''CE_GO_FUNCTION'' function)
       ''CE_PROTOCOL'' protocol"

definition contentOf :: "(string \<Rightarrow> string option) \<Rightarrow> string \<Rightarrow> string" where
  "contentOf fs p = (case fs p of None \<Rightarrow> [] | Some c \<Rightarrow> c)"

definition writePlan ::
  "World \<Rightarrow> string \<Rightarrow> string \<Rightarrow> FunctionDetails
     \<Rightarrow> event list \<times> (string \<Rightarrow> string option) \<times> (int + error option)" where
  "writePlan w planFileName protocol details =
     (case OpenFile w planFileName of
        Some err \<Rightarrow>
          (if length (Args w) < 3 then ([RuntimePanic], files w, Inl 2)
           else ([LogOpenFailed (Args w ! 2) err, Println supportedFuncs], files w, Inl 100))
      | None \<Rightarrow>
          (let replacedPlan = renderPlan (Package details) (FunctionDetails.Name details) protocol in
           case WriteString w planFileName replacedPlan of
             Some (n, err) \<Rightarrow>
               ([Println supportedFuncs],
                (files w)(planFileName \<mapsto> contentOf (files w) planFileName @ take n replacedPlan),
                Inl 100)
           | None \<Rightarrow>
               ([],
                (files w)(planFileName \<mapsto> contentOf (files w) planFileName @ replacedPlan),
                Inr None)))"

text \<open>The local variables of \<open>main\<close> that its loop over the files reads.\<close>

record Locals =
  detector :: "Function \<Rightarrow> error + FunctionDetails option"
  goFunction :: string
  goProtocol :: string
  fullGoPackage :: string
  planFileName :: string

text \<open>The name filter of the source: \<^verbatim>\<open>goFunction == "" || goFunction == deets.Name\<close>.\<close>

definition nameAccepted :: "string \<Rightarrow> FunctionDetails \<Rightarrow> bool" where
  "nameAccepted wanted deets \<longleftrightarrow> wanted = [] \<or> wanted = FunctionDetails.Name deets"

fun main_loop :: "World \<Rightarrow> Locals \<Rightarrow> string list \<Rightarrow> Outcome" where
  "main_loop w v [] = printSupportedFunctionsAndExit [] (files w)"
| "main_loop w v (f # fs) =
     (case ReadFile w f of
        Inl err \<Rightarrow> printSupportedFunctionsAndExit [LogProcessing f, LogError err] (files w)
      | Inr srcbuf \<Rightarrow>
          (case detector v \<lparr>File = f, Source = srcbuf\<rparr> of
             Inl err \<Rightarrow>
               \<lparr>exitCode = 100,
                events = [LogProcessing f, LogCheckFailed \<lparr>File = f, Source = srcbuf\<rparr> err],
                filesAfter = files w\<rparr>
           | Inr None \<Rightarrow> logged [LogProcessing f] (main_loop w v fs)
           | Inr (Some deets) \<Rightarrow>
               (let found = LogFound (FunctionDetails.Name deets) (Package deets) (Signature deets) in
                if nameAccepted (goFunction v) deets then
                  (case writePlan w (planFileName v) (goProtocol v)
                          (deets\<lparr>Package := fullGoPackage v\<rparr>) of
                     (evs, fs', Inl code) \<Rightarrow>
                       \<lparr>exitCode = code, events = [LogProcessing f, found] @ evs,
                        filesAfter = fs'\<rparr>
                   | (evs, fs', Inr err) \<Rightarrow>
                       \<lparr>exitCode = 0,
                        events = [LogProcessing f, found] @ evs @
                          (case err of Some e \<Rightarrow> [LogWritePlanFailed e] | None \<Rightarrow> []),
                        filesAfter = fs'\<rparr>)
                else logged [LogProcessing f, found] (main_loop w v fs))))"

text \<open>
  The two package values \<open>main\<close> computes: the directory to search (the configured
  subpath with a slash at its end) and the package written to the plan.
\<close>

definition goPackageOf :: "EnvConfig \<Rightarrow> string" where
  "goPackageOf c =
     (if \<not> strings_HasSuffix (CEGoPackage c) ''/'' then CEGoPackage c @ ''/''
      else CEGoPackage c)"

definition fullGoPackageOf :: "string \<Rightarrow> string \<Rightarrow> string" where
  "fullGoPackageOf moduleName goPackage =
     (if goPackage \<noteq> ''./'' then moduleName @ ''/'' @ filepath_Clean goPackage
      else moduleName)"

definition main :: "World \<Rightarrow> Outcome" where
  "main w =
     (let start = LogArgs (Args w) # map LogEnviron (Environ w) in
      if length (Args w) < 3 then
        (case Args w of
           [] \<Rightarrow> \<lparr>exitCode = 2, events = start @ [RuntimePanic], filesAfter = files w\<rparr>
         | a # _ \<Rightarrow> \<lparr>exitCode = 100, events = start @ [LogUsage a], filesAfter = files w\<rparr>)
      else
        (let envLog = (case envconfigErr w of Some e \<Rightarrow> [LogEnvConfigFailed e] | None \<Rightarrow> []) in
         case readModuleName w of
           (pieces, moduleName, Some err) \<Rightarrow>
             \<lparr>exitCode = 100, events = start @ envLog @ pieces @ [LogGoModFailed err],
              filesAfter = files w\<rparr>
         | (pieces, moduleName, None) \<Rightarrow>
             (let goPackage = goPackageOf (envConfig w);
                  v = \<lparr>detector = NewDetector w validFunctions,
                       goFunction = CEGoFunction (envConfig w),
                       goProtocol = CEProtocol (envConfig w),
                       fullGoPackage = fullGoPackageOf moduleName goPackage,
                       planFileName = Args w ! 2\<rparr>;
                  intro = start @ envLog @ pieces @ [LogUsingPath goPackage, LogPlanFile (Args w ! 2)]
              in case Glob w (goPackage @ ''*.go'') of
                   Inl err \<Rightarrow>
                     printSupportedFunctionsAndExit (intro @ [LogGlobFailed goPackage err]) (files w)
                 | Inr fs \<Rightarrow> logged intro (main_loop w v fs))))"

subsection \<open>Vocabulary for the properties\<close>

text \<open>
  The values of the local variables of \<open>main\<close> when it enters its loop, the lines it
  has logged by then, and the list of files the loop runs over: \<open>candidateFiles w\<close> is
  \<open>None\<close> when the run ends before the loop (too few arguments, \<^verbatim>\<open>go.mod\<close> cannot be
  opened, the pattern is refused by \<^verbatim>\<open>filepath.Glob\<close>).
\<close>

definition mainLocals :: "World \<Rightarrow> Locals" where
  "mainLocals w =
     \<lparr>detector = NewDetector w validFunctions,
      goFunction = CEGoFunction (envConfig w),
      goProtocol = CEProtocol (envConfig w),
      fullGoPackage = fullGoPackageOf (fst (snd (readModuleName w))) (goPackageOf (envConfig w)),
      planFileName = Args w ! 2\<rparr>"

definition mainIntro :: "World \<Rightarrow> event list" where
  "mainIntro w =
     LogArgs (Args w) # map LogEnviron (Environ w) @
     (case envconfigErr w of Some e \<Rightarrow> [LogEnvConfigFailed e] | None \<Rightarrow> []) @
     fst (readModuleName w) @
     [LogUsingPath (goPackageOf (envConfig w)), LogPlanFile (Args w ! 2)]"

definition candidateFiles :: "World \<Rightarrow> string list option" where
  "candidateFiles w =
     (if length (Args w) < 3 then None
      else case snd (snd (readModuleName w)) of
             Some err \<Rightarrow> None
           | None \<Rightarrow>
               (case Glob w (goPackageOf (envConfig w) @ ''*.go'') of
                  Inl err \<Rightarrow> None
                | Inr fs \<Rightarrow> Some fs))"

text \<open>
  A file is a negative outcome when it can be read and the detector returns neither an
  error nor a function, or returns a function whose name the filter rejects.
\<close>

definition negative :: "World \<Rightarrow> string \<Rightarrow> bool" where
  "negative w f =
     (case ReadFile w f of
        Inl err \<Rightarrow> False
      | Inr srcbuf \<Rightarrow>
          (case NewDetector w validFunctions \<lparr>File = f, Source = srcbuf\<rparr> of
             Inl err \<Rightarrow> False
           | Inr None \<Rightarrow> True
           | Inr (Some deets) \<Rightarrow> \<not> nameAccepted (CEGoFunction (envConfig w)) deets))"

subsection \<open>A concrete run\<close>

text \<open>
  A project with four Go files and the default configuration. The detector finds nothing
  in \<^verbatim>\<open>a.go\<close>, a function \<^verbatim>\<open>Handle\<close> in \<^verbatim>\<open>b.go\<close>, \<^verbatim>\<open>Receiver\<close> in \<^verbatim>\<open>c.go\<close> and
  \<^verbatim>\<open>Other\<close> in \<^verbatim>\<open>d.go\<close>; the plan file already holds a line.
\<close>

definition exampleDetector :: "FunctionSignature list \<Rightarrow> Function \<Rightarrow> error + FunctionDetails option" where
  "exampleDetector c fn =
     (if File fn = ''a.go'' then Inr None
      else if File fn = ''b.go''
        then Inr (Some \<lparr>Name = ''Handle'', Package = ''fn'', Signature = c ! 0\<rparr>)
      else if File fn = ''c.go''
        then Inr (Some \<lparr>Name = ''Receiver'', Package = ''fn'', Signature = c ! 5\<rparr>)
      else Inr (Some \<lparr>Name = ''Other'', Package = ''fn'', Signature = c ! 2\<rparr>))"

definition exampleWorld :: World where
  "exampleWorld =
     \<lparr>Args = [''/cnb/detect'', ''/platform'', ''/plan.toml''],
      Environ = [''HOME=/root''],
      envConfig = \<lparr>CEGoPackage = ''./'', CEGoFunction = ''Receiver'', CEProtocol = ''http''\<rparr>,
      envconfigErr = None,
      goMod = Inr ''module example.com/fn\<newline>\<newline>go 1.14\<newline>'',
      Glob = (\<lambda>pattern. Inr [''a.go'', ''b.go'', ''c.go'', ''d.go'']),
      ReadFile = (\<lambda>f. Inr ''package fn''),
      NewDetector = exampleDetector,
      files = (\<lambda>p. if p = ''/plan.toml'' then Some ''# plan\<newline>'' else None),
      OpenFile = (\<lambda>p. None),
      WriteString = (\<lambda>p s. None)\<rparr>"

text \<open>Variants of the run: a file that does not parse, a plan file that cannot be
  opened, and a name filter that no detected function passes.\<close>

definition parseErrorWorld :: World where
  "parseErrorWorld =
     exampleWorld\<lparr>NewDetector := \<lambda>c fn.
        if File fn = ''b.go'' then Inl ''b.go:3:1: expected declaration''
        else exampleDetector c fn\<rparr>"

definition unwritableWorld :: World where
  "unwritableWorld = exampleWorld\<lparr>OpenFile := \<lambda>p. Some ''permission denied''\<rparr>"

definition otherNameWorld :: World where
  "otherNameWorld =
     exampleWorld\<lparr>envConfig :=
        \<lparr>CEGoPackage = ''./'', CEGoFunction = ''Missing'', CEProtocol = ''http''\<rparr>\<rparr>"

text \<open>The descriptor \<open>main\<close> writes for a detected function: the rendered template with
  the package value of \<open>main\<close>, the function's name and the configured protocol.\<close>

definition descriptorFor :: "World \<Rightarrow> FunctionDetails \<Rightarrow> string" where
  "descriptorFor w deets =
     renderPlan (fullGoPackage (mainLocals w)) (FunctionDetails.Name deets) (CEProtocol (envConfig w))"


text \<open>A \<^verbatim>\<open>go.mod\<close> with two spaces after \<^verbatim>\<open>module\<close>, and one without a module line.\<close>

definition spacedModWorld :: World where
  "spacedModWorld =
     exampleWorld\<lparr>goMod := Inr ''module  example.com/fn\<newline>\<newline>go 1.14\<newline>''\<rparr>"

definition noModuleWorld :: World where
  "noModuleWorld = exampleWorld\<lparr>goMod := Inr ''go 1.14\<newline>''\<rparr>"

text \<open>
  The test \<open>readModuleName\<close> applies to a line: cut at every single space, it has at
  least two pieces and the first is \<^verbatim>\<open>module\<close>.
\<close>

definition moduleLine :: "string \<Rightarrow> bool" where
  "moduleLine l \<longleftrightarrow>
     length (strings_Split l CHR '' '') \<ge> 2 \<and> hd (strings_Split l CHR '' '') = ''module''"

text \<open>
  The reading of claim C9, for comparison with the code: the tokens of a line separated
  by white space, that is, its maximal runs of characters other than space, tab, line
  feed, vertical tab, form feed and carriage return.
\<close>

definition isSpace :: "char \<Rightarrow> bool" where
  "isSpace c \<longleftrightarrow> c \<in> {CHR '' '', CHR 0x09, CHR 0x0A, CHR 0x0B, CHR 0x0C, CHR 0x0D}"

fun tokens_from :: "string \<Rightarrow> string \<Rightarrow> string list" where
  "tokens_from cur [] = (if cur = [] then [] else [rev cur])"
| "tokens_from cur (c # cs) =
     (if isSpace c then (if cur = [] then tokens_from [] cs else rev cur # tokens_from [] cs)
      else tokens_from (c # cur) cs)"

definition whitespace_tokens :: "string \<Rightarrow> string list" where
  "whitespace_tokens s = tokens_from [] s"


section \<open>Auxiliary facts\<close>

lemma logged_simps [simp]:
  "exitCode (logged evs r) = exitCode r"
  "filesAfter (logged evs r) = filesAfter r"
  "events (logged evs r) = evs @ events r"
  "logged a (logged b r) = logged (a @ b) r"
  by (simp_all add: logged_def)

lemma processed_append [simp]: "processed (a @ b) = processed a @ processed b"
  by (induction a rule: processed.induct) simp_all

lemma processed_LogEnviron [simp]: "processed (map LogEnviron xs) = []"
  by (induction xs) simp_all

lemma scanModule_events: "set (fst (scanModule ls)) \<subseteq> range PrintPieces"
  by (induction ls) (auto simp: Let_def split: prod.splits)

lemma readModuleName_events: "set (fst (readModuleName w)) \<subseteq> range PrintPieces"
  using scanModule_events by (auto simp: readModuleName_def split: sum.splits)

lemma processed_PrintPieces: "set evs \<subseteq> range PrintPieces \<Longrightarrow> processed evs = []"
  by (induction evs) auto

lemma processed_mainIntro [simp]: "processed (mainIntro w) = []"
  by (simp add: mainIntro_def processed_PrintPieces [OF readModuleName_events] split: option.splits)

lemma main_enters_loop:
  assumes "candidateFiles w = Some fs"
  shows "main w = logged (mainIntro w) (main_loop w (mainLocals w) fs)"
  using assms
  by (cases "readModuleName w")
     (auto simp: main_def candidateFiles_def mainIntro_def mainLocals_def Let_def
           split: if_splits option.splits sum.splits)

lemma main_loop_negative:
  assumes "list_all (negative w) pre"
  shows "\<exists>evs. main_loop w (mainLocals w) (pre @ rest) = logged evs (main_loop w (mainLocals w) rest)
           \<and> processed evs = pre"
  using assms
proof (induction pre)
  case Nil
  have "main_loop w (mainLocals w) rest = logged [] (main_loop w (mainLocals w) rest)"
    by (simp add: logged_def)
  then show ?case by (metis append_Nil processed.simps(1))
next
  case (Cons f pre)
  then obtain evs where evs: "main_loop w (mainLocals w) (pre @ rest) = logged evs (main_loop w (mainLocals w) rest)"
    "processed evs = pre" by auto
  from Cons.prems have neg: "negative w f" by simp
  then obtain srcbuf where rd: "ReadFile w f = Inr srcbuf"
    by (auto simp: negative_def split: sum.splits)
  show ?case
  proof (cases "NewDetector w validFunctions \<lparr>File = f, Source = srcbuf\<rparr>")
    case (Inl err)
    with neg rd show ?thesis by (simp add: negative_def)
  next
    case (Inr r)
    show ?thesis
    proof (cases r)
      case None
      with Inr rd evs have "main_loop w (mainLocals w) ((f # pre) @ rest)
          = logged ([LogProcessing f] @ evs) (main_loop w (mainLocals w) rest)"
        by (simp add: mainLocals_def)
      moreover have "processed ([LogProcessing f] @ evs) = f # pre" using evs by simp
      ultimately show ?thesis by blast
    next
      case (Some deets)
      with Inr rd neg have rej: "\<not> nameAccepted (CEGoFunction (envConfig w)) deets"
        by (simp add: negative_def)
      with Some Inr rd evs have "main_loop w (mainLocals w) ((f # pre) @ rest)
          = logged ([LogProcessing f, LogFound (FunctionDetails.Name deets) (Package deets) (Signature deets)] @ evs)
              (main_loop w (mainLocals w) rest)"
        by (simp add: mainLocals_def Let_def)
      moreover have "processed ([LogProcessing f, LogFound (FunctionDetails.Name deets) (Package deets) (Signature deets)] @ evs) = f # pre"
        using evs by simp
      ultimately show ?thesis by blast
    qed
  qed
qed

lemma main_reaches:
  assumes "candidateFiles w = Some (pre @ rest)" and "list_all (negative w) pre"
  shows "\<exists>evs. main w = logged evs (main_loop w (mainLocals w) rest) \<and> processed evs = pre"
proof -
  from main_loop_negative [OF assms(2)] obtain evs where
    evs: "main_loop w (mainLocals w) (pre @ rest) = logged evs (main_loop w (mainLocals w) rest)"
    "processed evs = pre" by blast
  have "main w = logged (mainIntro w @ evs) (main_loop w (mainLocals w) rest)"
    using main_enters_loop [OF assms(1)] evs by simp
  moreover have "processed (mainIntro w @ evs) = pre" using evs by simp
  ultimately show ?thesis by blast
qed

lemmas run_defs = main_def readModuleName_def scan_lines_def dropCR_def MaxScanTokenSize_def
  goPackageOf_def fullGoPackageOf_def strings_HasSuffix_def suffix_to_prefix logged_def
  nameAccepted_def writePlan_def Let_def contentOf_def printSupportedFunctionsAndExit_def
  filepath_Clean_def candidateFiles_def negative_def mainLocals_def
  exampleWorld_def exampleDetector_def

lemma processed_writePlan [simp]: "processed (fst (writePlan w p proto d)) = []"
  by (simp add: writePlan_def Let_def split: option.splits)

lemma writePlan_returns_nil: "snd (snd (writePlan w p proto d)) \<noteq> Inr (Some e)"
  by (simp add: writePlan_def Let_def split: option.splits)

lemma writePlan_ok:
  assumes "OpenFile w p = None"
    and "WriteString w p (renderPlan (Package d) (FunctionDetails.Name d) proto) = None"
  shows "writePlan w p proto d =
    ([], (files w)(p \<mapsto> contentOf (files w) p @ renderPlan (Package d) (FunctionDetails.Name d) proto), Inr None)"
  using assms by (simp add: writePlan_def)

lemma writePlan_failed:
  assumes "3 \<le> length (Args w)"
    and "\<not> (OpenFile w p = None \<and> WriteString w p (renderPlan (Package d) (FunctionDetails.Name d) proto) = None)"
  shows "snd (snd (writePlan w p proto d)) = Inl 100"
  using assms by (auto simp: writePlan_def Let_def split: option.splits)

lemma main_loop_accepted:
  assumes "ReadFile w f = Inr srcbuf"
    and "detector v \<lparr>File = f, Source = srcbuf\<rparr> = Inr (Some deets)"
    and "nameAccepted (goFunction v) deets"
    and "wp = writePlan w (planFileName v) (goProtocol v) (deets\<lparr>Package := fullGoPackage v\<rparr>)"
  shows "main_loop w v (f # post) =
    \<lparr>exitCode = (case snd (snd wp) of Inl code \<Rightarrow> code | Inr err \<Rightarrow> 0),
     events = [LogProcessing f, LogFound (FunctionDetails.Name deets) (Package deets) (Signature deets)] @ fst wp,
     filesAfter = fst (snd wp)\<rparr>"
proof -
  obtain evs fs' res where wp: "wp = (evs, fs', res)" by (cases wp)
  show ?thesis
  proof (cases res)
    case (Inl code)
    with wp assms show ?thesis by (simp add: Let_def)
  next
    case (Inr err)
    with wp assms(4) writePlan_returns_nil [of w "planFileName v" "goProtocol v" "deets\<lparr>Package := fullGoPackage v\<rparr>"]
    have "err = None" by (cases err) auto
    with Inr wp assms show ?thesis by (simp add: Let_def)
  qed
qed

lemma main_loop_rejected:
  assumes "ReadFile w f = Inr srcbuf"
    and "detector v \<lparr>File = f, Source = srcbuf\<rparr> = Inr (Some deets)"
    and "\<not> nameAccepted (goFunction v) deets"
  shows "main_loop w v (f # post) =
    logged [LogProcessing f, LogFound (FunctionDetails.Name deets) (Package deets) (Signature deets)]
      (main_loop w v post)"
  using assms by (simp add: Let_def)

lemma main_loop_check_failed:
  assumes "ReadFile w f = Inr srcbuf"
    and "detector v \<lparr>File = f, Source = srcbuf\<rparr> = Inl err"
  shows "main_loop w v (f # post) =
    \<lparr>exitCode = 100, events = [LogProcessing f, LogCheckFailed \<lparr>File = f, Source = srcbuf\<rparr> err],
     filesAfter = files w\<rparr>"
  using assms by simp

lemma main_loop_starts:
  "\<exists>evs. events (main_loop w v (f # post)) = LogProcessing f # evs"
proof (cases "ReadFile w f")
  case (Inl err)
  then show ?thesis by (simp add: printSupportedFunctionsAndExit_def)
next
  case rd: (Inr srcbuf)
  show ?thesis
  proof (cases "detector v \<lparr>File = f, Source = srcbuf\<rparr>")
    case (Inl err)
    with rd show ?thesis by simp
  next
    case (Inr r)
    show ?thesis
    proof (cases r)
      case None
      with Inr rd show ?thesis by simp
    next
      case (Some deets)
      show ?thesis
      proof (cases "nameAccepted (goFunction v) deets")
        case True
        from Inr Some show ?thesis
          using main_loop_accepted [OF rd _ True refl, of post] by simp
      next
        case False
        from Inr Some show ?thesis
          using main_loop_rejected [OF rd _ False, of post] by simp
      qed
    qed
  qed
qed

lemma mainLocals_simps [simp]:
  "detector (mainLocals w) = NewDetector w validFunctions"
  "goFunction (mainLocals w) = CEGoFunction (envConfig w)"
  "goProtocol (mainLocals w) = CEProtocol (envConfig w)"
  "planFileName (mainLocals w) = Args w ! 2"
  by (simp_all add: mainLocals_def)

lemma candidateFiles_args: "candidateFiles w = Some fs \<Longrightarrow> 3 \<le> length (Args w)"
  by (simp add: candidateFiles_def split: if_splits)



lemma main_loop_nonempty:
  assumes "fs \<noteq> []"
  shows "processed (events (main_loop w v fs)) \<noteq> []"
proof (cases fs)
  case Nil
  with assms show ?thesis by simp
next
  case (Cons g rest)
  from main_loop_starts [of w v g rest] obtain evs where
    "events (main_loop w v (g # rest)) = LogProcessing g # evs" by blast
  with Cons show ?thesis by simp
qed



lemma writePlan_returned:
  assumes "snd (snd (writePlan w p proto d)) = Inr e"
  shows "fst (snd (writePlan w p proto d)) =
    (files w)(p \<mapsto> contentOf (files w) p @ renderPlan (Package d) (FunctionDetails.Name d) proto)"
  using assms by (auto simp: writePlan_def Let_def split: option.splits if_splits prod.splits)

lemma writePlan_exit_code:
  "snd (snd (writePlan w p proto d)) \<noteq> Inl 0"
  by (simp add: writePlan_def Let_def split: option.splits)


lemma writePlan_NewDetector [simp]:
  "writePlan (w\<lparr>NewDetector := nd\<rparr>) p proto d = writePlan w p proto d"
  by (simp add: writePlan_def Let_def split: option.splits)



lemma main_loop_events:
  assumes "\<And>p proto d. x \<notin> set (fst (writePlan w p proto d))"
    and "\<And>f. x \<noteq> LogProcessing f" and "\<And>err. x \<noteq> LogError err"
    and "x \<noteq> Println supportedFuncs" and "\<And>fn err. x \<noteq> LogCheckFailed fn err"
    and "\<And>a b c. x \<noteq> LogFound a b c"
  shows "x \<notin> set (events (main_loop w v fs))"
proof (induction fs)
  case Nil
  from assms(4) show ?case by (simp add: printSupportedFunctionsAndExit_def)
next
  case (Cons f fs)
  show ?case
  proof (cases "ReadFile w f")
    case (Inl err)
    with assms(2,3,4) show ?thesis by (simp add: printSupportedFunctionsAndExit_def)
  next
    case rd: (Inr srcbuf)
    show ?thesis
    proof (cases "detector v \<lparr>File = f, Source = srcbuf\<rparr>")
      case (Inl err)
      with rd assms(2,5) show ?thesis by simp
    next
      case (Inr r)
      show ?thesis
      proof (cases r)
        case None
        with Inr rd Cons.IH assms(2) show ?thesis by simp
      next
        case (Some deets)
        show ?thesis
        proof (cases "nameAccepted (goFunction v) deets")
          case False
          from Inr Some Cons.IH assms(2,6) show ?thesis
            using main_loop_rejected [OF rd _ False, of fs] by simp
        next
          case True
          from Inr Some assms(1,2,6) show ?thesis
            using main_loop_accepted [OF rd _ True refl, of fs] by simp
        qed
      qed
    qed
  qed
qed

lemma scanModule_find:
  "snd (scanModule ls) =
     (case find moduleLine ls of
        Some l \<Rightarrow> (hd (tl (strings_Split l CHR '' '')), None)
      | None \<Rightarrow> ([], None))"
  by (induction ls) (auto simp: Let_def moduleLine_def split: prod.splits)




section \<open>Properties\<close>

subsection \<open>The signature catalog\<close>

text \<open>
  Claim C1. The catalog \<open>validFunctions\<close> is a fixed sequence of exactly twelve
  signatures. Every entry takes \<open>[event]\<close> or \<open>[context, event]\<close> (both among the
  inputs the claim allows: empty, \<open>[event]\<close>, \<open>[context, event]\<close>), and returns one of:
  nothing, \<open>[result]\<close>, \<open>[error]\<close>, \<open>[eventPtr]\<close>, \<open>[eventPtr, result]\<close>,
  \<open>[eventPtr, error]\<close>, for the five canonical arguments the claim names. The catalog is
  a constant of the program: \<open>main\<close> hands it to the library once, before the loop over
  the files, and a run depends on the library only through the detector built from it
  (replacing the detectors of all other catalogs by anything, \<open>d\<close>, changes nothing).
\<close>

theorem validFunctions_catalog:
  assumes "event = \<lparr>ImportPath = ''github.com/cloudevents/sdk-go/v2'', Name = ''Event'', Pointer = False\<rparr>"
    and "context = \<lparr>ImportPath = ''context'', Name = ''Context'', Pointer = False\<rparr>"
    and "result = \<lparr>ImportPath = ''github.com/cloudevents/sdk-go/v2/protocol'', Name = ''Result'', Pointer = False\<rparr>"
    and "error = \<lparr>ImportPath = [], Name = ''error'', Pointer = False\<rparr>"
    and "eventPtr = \<lparr>ImportPath = ''github.com/cloudevents/sdk-go/v2'', Name = ''Event'', Pointer = True\<rparr>"
  shows "length validFunctions = 12
    \<and> (\<forall>s \<in> set validFunctions.
          In s \<in> {[], [event], [context, event]}
        \<and> Out s \<in> {[], [result], [error], [eventPtr], [eventPtr, result], [eventPtr, error]})
    \<and> main (w\<lparr>NewDetector := \<lambda>c. if c = validFunctions then NewDetector w c else d c\<rparr>) = main w"
proof -
  have shape: "\<forall>s \<in> set validFunctions.
          In s \<in> {[], [event], [context, event]}
        \<and> Out s \<in> {[], [result], [error], [eventPtr], [eventPtr, result], [eventPtr, error]}"
    unfolding assms
    by (simp add: validFunctions_def ceImport_def ceProtocolImport_def contextImport_def)
  have len: "length validFunctions = 12"
    by (simp add: validFunctions_def)
  have wp: "writePlan (w\<lparr>NewDetector := nd\<rparr>) p proto x = writePlan w p proto x" for nd p proto x
    by (simp add: writePlan_def Let_def split: option.splits)
  have loop: "main_loop (w\<lparr>NewDetector := nd\<rparr>) v fs = main_loop w v fs" for nd v fs
    by (induction fs) (simp_all add: wp Let_def split: sum.splits option.splits)
  have "main (w\<lparr>NewDetector := \<lambda>c. if c = validFunctions then NewDetector w c else d c\<rparr>) = main w"
    by (simp add: main_def readModuleName_def loop Let_def
          split: sum.splits option.splits prod.splits list.splits)
  with shape len show ?thesis by blast
qed

theorem validFunctions_catalog_witness:
  "length validFunctions = 12
   \<and> In (validFunctions ! 10) \<in>
       {[], [\<lparr>ImportPath = ''github.com/cloudevents/sdk-go/v2'', Name = ''Event'', Pointer = False\<rparr>],
        [\<lparr>ImportPath = ''context'', Name = ''Context'', Pointer = False\<rparr>,
         \<lparr>ImportPath = ''github.com/cloudevents/sdk-go/v2'', Name = ''Event'', Pointer = False\<rparr>]}
   \<and> Out (validFunctions ! 10) =
       [\<lparr>ImportPath = ''github.com/cloudevents/sdk-go/v2'', Name = ''Event'', Pointer = True\<rparr>,
        \<lparr>ImportPath = ''github.com/cloudevents/sdk-go/v2/protocol'', Name = ''Result'', Pointer = False\<rparr>]"
proof -
  have mem: "validFunctions ! 10 \<in> set validFunctions"
    by (simp add: validFunctions_def)
  have out: "Out (validFunctions ! 10) =
       [\<lparr>ImportPath = ''github.com/cloudevents/sdk-go/v2'', Name = ''Event'', Pointer = True\<rparr>,
        \<lparr>ImportPath = ''github.com/cloudevents/sdk-go/v2/protocol'', Name = ''Result'', Pointer = False\<rparr>]"
    by (simp add: validFunctions_def ceImport_def ceProtocolImport_def)
  from validFunctions_catalog [OF refl refl refl refl refl] mem out
  show ?thesis by blast
qed

subsection \<open>The name filter\<close>

text \<open>
  Claim C2, as amended. Take a candidate file \<open>f\<close> that the loop reaches (every file
  before it is a negative outcome) and for which detection returns a function \<open>deets\<close>.
  Provided the plan file can be opened and the descriptor written, the program accepts
  the result (it appends the descriptor, exits with code 0 and examines no further file)
  if and only if the name filter is empty or equal to the name of the function. When the
  filter accepts but the plan file cannot be opened or written, the process exits with
  code 100 instead. When the filter rejects, the program moves on: the run ends as the
  loop over the remaining files ends, starting from the files as they were.

  The claim as stated, without the proviso on the plan file, fails: see the
  counterexample below.
\<close>

theorem name_filter_decides:
  assumes "candidateFiles w = Some (pre @ f # post)"
    and "list_all (negative w) pre"
    and "ReadFile w f = Inr srcbuf"
    and "NewDetector w validFunctions \<lparr>File = f, Source = srcbuf\<rparr> = Inr (Some deets)"
  shows "(OpenFile w (Args w ! 2) = None
          \<and> WriteString w (Args w ! 2) (descriptorFor w deets) = None \<longrightarrow>
           (exitCode (main w) = 0
            \<and> filesAfter (main w) =
                (files w)(Args w ! 2 \<mapsto> contentOf (files w) (Args w ! 2) @ descriptorFor w deets)
            \<and> processed (events (main w)) = pre @ [f]
           \<longleftrightarrow> nameAccepted (CEGoFunction (envConfig w)) deets))
    \<and> (nameAccepted (CEGoFunction (envConfig w)) deets
         \<and> \<not> (OpenFile w (Args w ! 2) = None
               \<and> WriteString w (Args w ! 2) (descriptorFor w deets) = None) \<longrightarrow>
           exitCode (main w) = 100 \<and> processed (events (main w)) = pre @ [f])
    \<and> (\<not> nameAccepted (CEGoFunction (envConfig w)) deets \<longrightarrow>
           exitCode (main w) = exitCode (main_loop w (mainLocals w) post)
         \<and> filesAfter (main w) = filesAfter (main_loop w (mainLocals w) post)
         \<and> processed (events (main w))
             = pre @ f # processed (events (main_loop w (mainLocals w) post)))"
proof -
  define plan where "plan = Args w ! 2"
  define v where "v = mainLocals w"
  define d where "d = deets\<lparr>Package := fullGoPackage v\<rparr>"
  define wp where "wp = writePlan w plan (CEProtocol (envConfig w)) d"
  define found where
    "found = LogFound (FunctionDetails.Name deets) (Package deets) (Signature deets)"
  define accepted where "accepted = nameAccepted (CEGoFunction (envConfig w)) deets"
  define writable where
    "writable \<longleftrightarrow> OpenFile w plan = None \<and> WriteString w plan (descriptorFor w deets) = None"
  from main_reaches [OF assms(1,2)] obtain evs where
    run: "main w = logged evs (main_loop w v (f # post))" and evs: "processed evs = pre"
    unfolding v_def by blast
  have pf [simp]: "processed (found # xs) = processed xs" for xs
    by (simp add: found_def)
  have pw [simp]: "processed (fst wp) = []"
    by (simp add: wp_def)
  have args: "3 \<le> length (Args w)"
    using assms(1) by (rule candidateFiles_args)
  have block: "renderPlan (Package d) (FunctionDetails.Name d) (CEProtocol (envConfig w))
      = descriptorFor w deets"
    by (simp add: d_def v_def descriptorFor_def)
  have acc: "main_loop w v (f # post) =
      \<lparr>exitCode = (case snd (snd wp) of Inl code \<Rightarrow> code | Inr err \<Rightarrow> 0),
       events = [LogProcessing f, found] @ fst wp, filesAfter = fst (snd wp)\<rparr>"
    if accepted
    using main_loop_accepted [of w f srcbuf v deets wp post] assms(3,4) that
    by (simp add: v_def wp_def d_def plan_def found_def accepted_def)
  have rej: "main_loop w v (f # post) = logged [LogProcessing f, found] (main_loop w v post)"
    if "\<not> accepted"
    using main_loop_rejected [of w f srcbuf v deets post] assms(3,4) that
    by (simp add: v_def found_def accepted_def)
  have ok: "exitCode (main w) = 0
      \<and> filesAfter (main w) = (files w)(plan \<mapsto> contentOf (files w) plan @ descriptorFor w deets)
      \<and> processed (events (main w)) = pre @ [f]"
    if accepted and writable
  proof -
    have "wp = ([], (files w)(plan \<mapsto> contentOf (files w) plan @ descriptorFor w deets), Inr None)"
      using writePlan_ok [of w plan d "CEProtocol (envConfig w)"] that(2)
      by (simp add: wp_def block writable_def)
    with acc [OF that(1)] run evs show ?thesis by simp
  qed
  have failed: "exitCode (main w) = 100 \<and> processed (events (main w)) = pre @ [f]"
    if accepted and "\<not> writable"
  proof -
    have "snd (snd wp) = Inl 100"
      using writePlan_failed [of w plan d "CEProtocol (envConfig w)"] args that(2)
      by (simp add: wp_def block writable_def)
    with acc [OF that(1)] run evs show ?thesis by simp
  qed
  have moved: "exitCode (main w) = exitCode (main_loop w v post)
      \<and> filesAfter (main w) = filesAfter (main_loop w v post)
      \<and> processed (events (main w)) = pre @ f # processed (events (main_loop w v post))"
    if "\<not> accepted"
    using rej [OF that] run evs by simp
  have notacc: "\<not> (exitCode (main w) = 0 \<and> processed (events (main w)) = pre @ [f])"
    if "\<not> accepted"
  proof (cases post)
    case Nil
    with moved [OF that] show ?thesis
      by (simp add: printSupportedFunctionsAndExit_def)
  next
    case (Cons g post')
    then have "processed (events (main_loop w v post)) \<noteq> []"
      by (intro main_loop_nonempty) simp
    with moved [OF that] show ?thesis by simp
  qed
  from ok failed moved notacc show ?thesis
    unfolding plan_def v_def accepted_def writable_def by blast
qed

theorem name_filter_decides_witness:
  "candidateFiles exampleWorld = Some ([''a.go'', ''b.go''] @ ''c.go'' # [''d.go''])
   \<and> list_all (negative exampleWorld) [''a.go'', ''b.go'']
   \<and> ReadFile exampleWorld ''c.go'' = Inr ''package fn''
   \<and> NewDetector exampleWorld validFunctions \<lparr>File = ''c.go'', Source = ''package fn''\<rparr>
       = Inr (Some \<lparr>Name = ''Receiver'', Package = ''fn'', Signature = validFunctions ! 5\<rparr>)
   \<and> exitCode (main exampleWorld) = 0
   \<and> filesAfter (main exampleWorld) ''/plan.toml''
       = Some (''# plan\<newline>'' @ renderPlan ''example.com/fn'' ''Receiver'' ''http'')
   \<and> processed (events (main exampleWorld)) = [''a.go'', ''b.go'', ''c.go'']"
proof -
  define deets where
    "deets = \<lparr>Name = ''Receiver'', Package = ''fn'', Signature = validFunctions ! 5\<rparr>"
  have h1: "candidateFiles exampleWorld = Some ([''a.go'', ''b.go''] @ ''c.go'' # [''d.go''])"
    by (simp add: run_defs descriptorFor_def)
  have h2: "list_all (negative exampleWorld) [''a.go'', ''b.go'']"
    by (simp add: run_defs descriptorFor_def)
  have h3: "ReadFile exampleWorld ''c.go'' = Inr ''package fn''"
    by (simp add: run_defs descriptorFor_def)
  have h4: "NewDetector exampleWorld validFunctions \<lparr>File = ''c.go'', Source = ''package fn''\<rparr>
      = Inr (Some deets)"
    by (simp add: run_defs descriptorFor_def deets_def)
  have io: "OpenFile exampleWorld (Args exampleWorld ! 2) = None
      \<and> WriteString exampleWorld (Args exampleWorld ! 2) (descriptorFor exampleWorld deets) = None"
    by (simp add: exampleWorld_def)
  have acc: "nameAccepted (CEGoFunction (envConfig exampleWorld)) deets"
    by (simp add: run_defs descriptorFor_def deets_def)
  have plan: "Args exampleWorld ! 2 = ''/plan.toml''"
    by (simp add: exampleWorld_def)
  have old: "contentOf (files exampleWorld) ''/plan.toml'' = ''# plan\<newline>''"
    by (simp add: run_defs descriptorFor_def)
  have block: "descriptorFor exampleWorld deets = renderPlan ''example.com/fn'' ''Receiver'' ''http''"
    by (simp add: run_defs descriptorFor_def deets_def)
  from name_filter_decides [OF h1 h2 h3 h4] io acc
  have "exitCode (main exampleWorld) = 0
      \<and> filesAfter (main exampleWorld) =
          (files exampleWorld)(Args exampleWorld ! 2 \<mapsto>
             contentOf (files exampleWorld) (Args exampleWorld ! 2) @ descriptorFor exampleWorld deets)
      \<and> processed (events (main exampleWorld)) = [''a.go'', ''b.go''] @ [''c.go'']"
    by blast
  with h1 h2 h3 h4 plan old block show ?thesis
    by (simp add: deets_def)
qed

text \<open>
  The claim as stated fails where the plan file cannot be opened: the filter
  \<^verbatim>\<open>Receiver\<close> equals the name of the function found in \<^verbatim>\<open>c.go\<close>, yet nothing is
  written and the exit code is 100, not 0.
\<close>

theorem name_filter_decides_counterexample:
  "candidateFiles unwritableWorld = Some [''a.go'', ''b.go'', ''c.go'', ''d.go'']
   \<and> list_all (negative unwritableWorld) [''a.go'', ''b.go'']
   \<and> ReadFile unwritableWorld ''c.go'' = Inr ''package fn''
   \<and> NewDetector unwritableWorld validFunctions \<lparr>File = ''c.go'', Source = ''package fn''\<rparr>
       = Inr (Some \<lparr>Name = ''Receiver'', Package = ''fn'', Signature = validFunctions ! 5\<rparr>)
   \<and> CEGoFunction (envConfig unwritableWorld) = ''Receiver''
   \<and> exitCode (main unwritableWorld) = 100
   \<and> filesAfter (main unwritableWorld) = files unwritableWorld"
  by (simp add: run_defs unwritableWorld_def)

subsection \<open>Where the iteration over the files stops\<close>

text \<open>
  Claim C3, as amended. The iteration over the candidate files stops at the first file
  for which the detector returns a function that passes the name filter: the files
  examined are the files up to and including that one, and no later file is examined.
  (A function that the filter rejects does not stop the iteration, which is why the
  claim as stated, for any non-nil result, fails: see the counterexample below.)
\<close>

theorem accepted_result_stops_iteration:
  assumes "candidateFiles w = Some (pre @ f # post)"
    and "list_all (negative w) pre"
    and "ReadFile w f = Inr srcbuf"
    and "NewDetector w validFunctions \<lparr>File = f, Source = srcbuf\<rparr> = Inr (Some deets)"
    and "nameAccepted (CEGoFunction (envConfig w)) deets"
  shows "processed (events (main w)) = pre @ [f]"
proof -
  from main_reaches [OF assms(1,2)] obtain evs where
    run: "main w = logged evs (main_loop w (mainLocals w) (f # post))"
    and evs: "processed evs = pre"
    by blast
  have "processed (events (main_loop w (mainLocals w) (f # post))) = [f]"
    using main_loop_accepted [of w f srcbuf "mainLocals w" deets _ post] assms(3-5)
    by simp
  with run evs show ?thesis by simp
qed

theorem accepted_result_stops_iteration_witness:
  "candidateFiles exampleWorld = Some ([''a.go'', ''b.go''] @ ''c.go'' # [''d.go''])
   \<and> list_all (negative exampleWorld) [''a.go'', ''b.go'']
   \<and> ReadFile exampleWorld ''c.go'' = Inr ''package fn''
   \<and> NewDetector exampleWorld validFunctions \<lparr>File = ''c.go'', Source = ''package fn''\<rparr>
       = Inr (Some \<lparr>Name = ''Receiver'', Package = ''fn'', Signature = validFunctions ! 5\<rparr>)
   \<and> nameAccepted (CEGoFunction (envConfig exampleWorld))
        \<lparr>Name = ''Receiver'', Package = ''fn'', Signature = validFunctions ! 5\<rparr>
   \<and> processed (events (main exampleWorld)) = [''a.go'', ''b.go''] @ [''c.go'']"
proof -
  have h1: "candidateFiles exampleWorld = Some ([''a.go'', ''b.go''] @ ''c.go'' # [''d.go''])"
    by (simp add: run_defs)
  have h2: "list_all (negative exampleWorld) [''a.go'', ''b.go'']"
    by (simp add: run_defs)
  have h3: "ReadFile exampleWorld ''c.go'' = Inr ''package fn''"
    by (simp add: run_defs)
  have h4: "NewDetector exampleWorld validFunctions \<lparr>File = ''c.go'', Source = ''package fn''\<rparr>
       = Inr (Some \<lparr>Name = ''Receiver'', Package = ''fn'', Signature = validFunctions ! 5\<rparr>)"
    by (simp add: run_defs)
  have h5: "nameAccepted (CEGoFunction (envConfig exampleWorld))
        \<lparr>Name = ''Receiver'', Package = ''fn'', Signature = validFunctions ! 5\<rparr>"
    by (simp add: run_defs)
  from accepted_result_stops_iteration [OF h1 h2 h3 h4 h5] h1 h2 h3 h4 h5
  show ?thesis by blast
qed

text \<open>
  The claim as stated fails: the detector returns a function for \<^verbatim>\<open>b.go\<close>, without an
  error, and the file after it, \<^verbatim>\<open>c.go\<close>, is examined all the same, because the name
  \<^verbatim>\<open>Handle\<close> is not the configured \<^verbatim>\<open>Receiver\<close>.
\<close>

theorem nonnil_result_stops_iteration_counterexample:
  "candidateFiles exampleWorld = Some [''a.go'', ''b.go'', ''c.go'', ''d.go'']
   \<and> ReadFile exampleWorld ''b.go'' = Inr ''package fn''
   \<and> NewDetector exampleWorld validFunctions \<lparr>File = ''b.go'', Source = ''package fn''\<rparr>
       = Inr (Some \<lparr>Name = ''Handle'', Package = ''fn'', Signature = validFunctions ! 0\<rparr>)
   \<and> processed (events (main exampleWorld)) = [''a.go'', ''b.go'', ''c.go'']"
  by (simp add: run_defs)

subsection \<open>A file that does not parse\<close>

text \<open>
  Claim C4. When the detector returns an error for a candidate file that the loop
  reaches, the run aborts there: the exit code is 100, the last thing the program does is
  to log the failure, the files examined are those up to and including the failing one
  (no later file is examined), and no file has been written.
\<close>

theorem check_error_aborts_run:
  assumes "candidateFiles w = Some (pre @ f # post)"
    and "list_all (negative w) pre"
    and "ReadFile w f = Inr srcbuf"
    and "NewDetector w validFunctions \<lparr>File = f, Source = srcbuf\<rparr> = Inl err"
  shows "exitCode (main w) = 100
    \<and> processed (events (main w)) = pre @ [f]
    \<and> last (events (main w)) = LogCheckFailed \<lparr>File = f, Source = srcbuf\<rparr> err
    \<and> filesAfter (main w) = files w"
proof -
  from main_reaches [OF assms(1,2)] obtain evs where
    run: "main w = logged evs (main_loop w (mainLocals w) (f # post))"
    and evs: "processed evs = pre"
    by blast
  have "main_loop w (mainLocals w) (f # post) =
    \<lparr>exitCode = 100,
     events = [LogProcessing f, LogCheckFailed \<lparr>File = f, Source = srcbuf\<rparr> err],
     filesAfter = files w\<rparr>"
    using main_loop_check_failed [of w f srcbuf "mainLocals w" err post] assms(3,4) by simp
  with run evs show ?thesis by simp
qed

theorem check_error_aborts_run_witness:
  "candidateFiles parseErrorWorld = Some ([''a.go''] @ ''b.go'' # [''c.go'', ''d.go''])
   \<and> list_all (negative parseErrorWorld) [''a.go'']
   \<and> ReadFile parseErrorWorld ''b.go'' = Inr ''package fn''
   \<and> NewDetector parseErrorWorld validFunctions \<lparr>File = ''b.go'', Source = ''package fn''\<rparr>
       = Inl ''b.go:3:1: expected declaration''
   \<and> exitCode (main parseErrorWorld) = 100
   \<and> processed (events (main parseErrorWorld)) = [''a.go''] @ [''b.go'']
   \<and> filesAfter (main parseErrorWorld) = files parseErrorWorld"
proof -
  have h1: "candidateFiles parseErrorWorld = Some ([''a.go''] @ ''b.go'' # [''c.go'', ''d.go''])"
    by (simp add: run_defs parseErrorWorld_def)
  have h2: "list_all (negative parseErrorWorld) [''a.go'']"
    by (simp add: run_defs parseErrorWorld_def)
  have h3: "ReadFile parseErrorWorld ''b.go'' = Inr ''package fn''"
    by (simp add: run_defs parseErrorWorld_def)
  have h4: "NewDetector parseErrorWorld validFunctions \<lparr>File = ''b.go'', Source = ''package fn''\<rparr>
       = Inl ''b.go:3:1: expected declaration''"
    by (simp add: run_defs parseErrorWorld_def)
  from check_error_aborts_run [OF h1 h2 h3 h4] h1 h2 h3 h4
  show ?thesis by blast
qed

subsection \<open>Files without an accepted function\<close>

text \<open>
  Claim C5. A file for which the detector returns neither an error nor a function, or a
  function that the name filter rejects, is not an error: the run advances. After a
  sequence \<open>pre\<close> of such files the run ends as the loop over the remaining files ends,
  nothing having been written, and the next file, if there is one, is examined. When
  every candidate file is of this kind, the program writes nothing, ends by printing the
  help text on the supported signatures and exits with code 100.
\<close>

theorem negative_files_advance:
  assumes "candidateFiles w = Some (pre @ rest)"
    and "list_all (negative w) pre"
  shows "exitCode (main w) = exitCode (main_loop w (mainLocals w) rest)
    \<and> filesAfter (main w) = filesAfter (main_loop w (mainLocals w) rest)
    \<and> processed (events (main w)) = pre @ processed (events (main_loop w (mainLocals w) rest))
    \<and> (\<forall>g rest'. rest = g # rest' \<longrightarrow> prefix (pre @ [g]) (processed (events (main w))))
    \<and> (rest = [] \<longrightarrow>
          exitCode (main w) = 100 \<and> filesAfter (main w) = files w
        \<and> processed (events (main w)) = pre
        \<and> last (events (main w)) = Println supportedFuncs)"
proof -
  from main_reaches [OF assms] obtain evs where
    run: "main w = logged evs (main_loop w (mainLocals w) rest)" and evs: "processed evs = pre"
    by blast
  have adv: "prefix (pre @ [g]) (processed (events (main w)))" if "rest = g # rest'" for g rest'
  proof -
    from main_loop_starts [of w "mainLocals w" g rest'] obtain evs' where
      "events (main_loop w (mainLocals w) (g # rest')) = LogProcessing g # evs'" by blast
    with run evs that show ?thesis by simp
  qed
  have fin: "exitCode (main w) = 100 \<and> filesAfter (main w) = files w
        \<and> processed (events (main w)) = pre
        \<and> last (events (main w)) = Println supportedFuncs" if "rest = []"
    using run evs that by (simp add: printSupportedFunctionsAndExit_def)
  from run evs adv fin show ?thesis by simp
qed

theorem negative_files_advance_witness:
  "candidateFiles otherNameWorld = Some ([''a.go'', ''b.go'', ''c.go'', ''d.go''] @ [])
   \<and> list_all (negative otherNameWorld) [''a.go'', ''b.go'', ''c.go'', ''d.go'']
   \<and> exitCode (main otherNameWorld) = 100
   \<and> filesAfter (main otherNameWorld) = files otherNameWorld
   \<and> processed (events (main otherNameWorld)) = [''a.go'', ''b.go'', ''c.go'', ''d.go'']
   \<and> last (events (main otherNameWorld)) = Println supportedFuncs"
proof -
  have h1: "candidateFiles otherNameWorld = Some ([''a.go'', ''b.go'', ''c.go'', ''d.go''] @ [])"
    by (simp add: run_defs otherNameWorld_def)
  have h2: "list_all (negative otherNameWorld) [''a.go'', ''b.go'', ''c.go'', ''d.go'']"
    by (simp add: run_defs otherNameWorld_def)
  from negative_files_advance [OF h1 h2] h1 h2
  show ?thesis by blast
qed

subsection \<open>The package written to the plan\<close>




subsection \<open>The descriptor\<close>

text \<open>
  Claim C7. On a successful detection (the loop reaches a file with a function that
  passes the filter, and the run ends with exit code 0) the bytes appended to the plan
  file are exactly the template \<open>planFileFormat\<close> with the first \<^verbatim>\<open>PACKAGE\<close> replaced by
  the package value of \<open>main\<close>, then the first \<^verbatim>\<open>CE_GO_FUNCTION\<close> replaced by the name of
  the detected function, then the first \<^verbatim>\<open>CE_PROTOCOL\<close> replaced by the configured
  protocol string as it is. The template names the capability \<^verbatim>\<open>ce-go-function\<close> in its
  \<^verbatim>\<open>provides\<close> entry and in its \<^verbatim>\<open>requires\<close> entry.
\<close>

theorem plan_descriptor_content:
  assumes "candidateFiles w = Some (pre @ f # post)"
    and "list_all (negative w) pre"
    and "ReadFile w f = Inr srcbuf"
    and "NewDetector w validFunctions \<lparr>File = f, Source = srcbuf\<rparr> = Inr (Some deets)"
    and "nameAccepted (CEGoFunction (envConfig w)) deets"
    and "exitCode (main w) = 0"
  shows "filesAfter (main w) (Args w ! 2) =
      Some (contentOf (files w) (Args w ! 2) @
        strings_Replace1
          (strings_Replace1
             (strings_Replace1 planFileFormat ''PACKAGE'' (fullGoPackage (mainLocals w)))
             ''CE_GO_FUNCTION'' (FunctionDetails.Name deets))
          ''CE_PROTOCOL'' (CEProtocol (envConfig w)))
    \<and> planFileFormat =
        ''\<newline>[[provides]]\<newline>name = '' @ [CHR 0x22] @ ''ce-go-function'' @ [CHR 0x22] @
        ''\<newline>[[requires]]\<newline>name = '' @ [CHR 0x22] @ ''ce-go-function'' @ [CHR 0x22] @
        ''\<newline>[requires.metadata]\<newline>package = '' @ [CHR 0x22] @ ''PACKAGE'' @ [CHR 0x22] @
        ''\<newline>function = '' @ [CHR 0x22] @ ''CE_GO_FUNCTION'' @ [CHR 0x22] @
        ''\<newline>protocol = '' @ [CHR 0x22] @ ''CE_PROTOCOL'' @ [CHR 0x22] @ ''\<newline>''"
proof -
  define v where "v = mainLocals w"
  define wp where "wp = writePlan w (planFileName v) (goProtocol v) (deets\<lparr>Package := fullGoPackage v\<rparr>)"
  from main_reaches [OF assms(1,2)] obtain evs where
    run: "main w = logged evs (main_loop w v (f # post))"
    unfolding v_def by blast
  have step: "main_loop w v (f # post) =
      \<lparr>exitCode = (case snd (snd wp) of Inl code \<Rightarrow> code | Inr err \<Rightarrow> 0),
       events = [LogProcessing f, LogFound (FunctionDetails.Name deets) (Package deets) (Signature deets)] @ fst wp,
       filesAfter = fst (snd wp)\<rparr>"
    using assms(4,5) by (intro main_loop_accepted [OF assms(3) _ _ wp_def]) (simp_all add: v_def)
  obtain e where "snd (snd wp) = Inr e"
    using assms(6) run step
      writePlan_exit_code [of w "planFileName v" "goProtocol v" "deets\<lparr>Package := fullGoPackage v\<rparr>"]
    by (cases "snd (snd wp)") (auto simp: wp_def)
  then have "fst (snd wp) = (files w)(planFileName v \<mapsto> contentOf (files w) (planFileName v)
       @ renderPlan (fullGoPackage v) (FunctionDetails.Name deets) (goProtocol v))"
    using writePlan_returned [of w "planFileName v" "goProtocol v" "deets\<lparr>Package := fullGoPackage v\<rparr>" e]
    by (simp add: wp_def)
  with run step have "filesAfter (main w) (Args w ! 2) =
      Some (contentOf (files w) (Args w ! 2) @
        renderPlan (fullGoPackage (mainLocals w)) (FunctionDetails.Name deets) (CEProtocol (envConfig w)))"
    by (simp add: v_def)
  moreover have "planFileFormat =
        ''\<newline>[[provides]]\<newline>name = '' @ [CHR 0x22] @ ''ce-go-function'' @ [CHR 0x22] @
        ''\<newline>[[requires]]\<newline>name = '' @ [CHR 0x22] @ ''ce-go-function'' @ [CHR 0x22] @
        ''\<newline>[requires.metadata]\<newline>package = '' @ [CHR 0x22] @ ''PACKAGE'' @ [CHR 0x22] @
        ''\<newline>function = '' @ [CHR 0x22] @ ''CE_GO_FUNCTION'' @ [CHR 0x22] @
        ''\<newline>protocol = '' @ [CHR 0x22] @ ''CE_PROTOCOL'' @ [CHR 0x22] @ ''\<newline>''"
    by (simp add: planFileFormat_def)
  ultimately show ?thesis by (simp add: renderPlan_def)
qed

theorem plan_descriptor_content_witness:
  "candidateFiles exampleWorld = Some ([''a.go'', ''b.go''] @ ''c.go'' # [''d.go''])
   \<and> list_all (negative exampleWorld) [''a.go'', ''b.go'']
   \<and> ReadFile exampleWorld ''c.go'' = Inr ''package fn''
   \<and> NewDetector exampleWorld validFunctions \<lparr>File = ''c.go'', Source = ''package fn''\<rparr>
       = Inr (Some \<lparr>Name = ''Receiver'', Package = ''fn'', Signature = validFunctions ! 5\<rparr>)
   \<and> exitCode (main exampleWorld) = 0
   \<and> filesAfter (main exampleWorld) ''/plan.toml'' =
       Some (''# plan\<newline>'' @
        ''\<newline>[[provides]]\<newline>name = '' @ [CHR 0x22] @ ''ce-go-function'' @ [CHR 0x22] @
        ''\<newline>[[requires]]\<newline>name = '' @ [CHR 0x22] @ ''ce-go-function'' @ [CHR 0x22] @
        ''\<newline>[requires.metadata]\<newline>package = '' @ [CHR 0x22] @ ''example.com/fn'' @ [CHR 0x22] @
        ''\<newline>function = '' @ [CHR 0x22] @ ''Receiver'' @ [CHR 0x22] @
        ''\<newline>protocol = '' @ [CHR 0x22] @ ''http'' @ [CHR 0x22] @ ''\<newline>'')"
proof -
  define deets where
    "deets = \<lparr>Name = ''Receiver'', Package = ''fn'', Signature = validFunctions ! 5\<rparr>"
  have h1: "candidateFiles exampleWorld = Some ([''a.go'', ''b.go''] @ ''c.go'' # [''d.go''])"
    by (simp add: run_defs)
  have h2: "list_all (negative exampleWorld) [''a.go'', ''b.go'']"
    by (simp add: run_defs)
  have h3: "ReadFile exampleWorld ''c.go'' = Inr ''package fn''"
    by (simp add: run_defs)
  have h4: "NewDetector exampleWorld validFunctions \<lparr>File = ''c.go'', Source = ''package fn''\<rparr>
      = Inr (Some deets)"
    by (simp add: run_defs deets_def)
  have h5: "nameAccepted (CEGoFunction (envConfig exampleWorld)) deets"
    by (simp add: run_defs deets_def)
  have h6: "exitCode (main exampleWorld) = 0"
    by (simp add: run_defs)
  have plan: "Args exampleWorld ! 2 = ''/plan.toml''"
    by (simp add: exampleWorld_def)
  have old: "contentOf (files exampleWorld) ''/plan.toml'' = ''# plan\<newline>''"
    by (simp add: run_defs)
  have pkg: "fullGoPackage (mainLocals exampleWorld) = ''example.com/fn''"
    by (simp add: run_defs)
  have name: "FunctionDetails.Name deets = ''Receiver''"
    and proto: "CEProtocol (envConfig exampleWorld) = ''http''"
    by (simp_all add: deets_def exampleWorld_def)
  have block: "strings_Replace1
          (strings_Replace1
             (strings_Replace1 planFileFormat ''PACKAGE'' ''example.com/fn'')
             ''CE_GO_FUNCTION'' ''Receiver'')
          ''CE_PROTOCOL'' ''http'' =
        ''\<newline>[[provides]]\<newline>name = '' @ [CHR 0x22] @ ''ce-go-function'' @ [CHR 0x22] @
        ''\<newline>[[requires]]\<newline>name = '' @ [CHR 0x22] @ ''ce-go-function'' @ [CHR 0x22] @
        ''\<newline>[requires.metadata]\<newline>package = '' @ [CHR 0x22] @ ''example.com/fn'' @ [CHR 0x22] @
        ''\<newline>function = '' @ [CHR 0x22] @ ''Receiver'' @ [CHR 0x22] @
        ''\<newline>protocol = '' @ [CHR 0x22] @ ''http'' @ [CHR 0x22] @ ''\<newline>''"
    by (simp add: planFileFormat_def)
  from plan_descriptor_content [OF h1 h2 h3 h4 h5 h6]
  have "filesAfter (main exampleWorld) (Args exampleWorld ! 2) =
      Some (contentOf (files exampleWorld) (Args exampleWorld ! 2) @
        strings_Replace1
          (strings_Replace1
             (strings_Replace1 planFileFormat ''PACKAGE'' (fullGoPackage (mainLocals exampleWorld)))
             ''CE_GO_FUNCTION'' (FunctionDetails.Name deets))
          ''CE_PROTOCOL'' (CEProtocol (envConfig exampleWorld)))"
    by blast
  then have "filesAfter (main exampleWorld) ''/plan.toml'' =
       Some (''# plan\<newline>'' @
        ''\<newline>[[provides]]\<newline>name = '' @ [CHR 0x22] @ ''ce-go-function'' @ [CHR 0x22] @
        ''\<newline>[[requires]]\<newline>name = '' @ [CHR 0x22] @ ''ce-go-function'' @ [CHR 0x22] @
        ''\<newline>[requires.metadata]\<newline>package = '' @ [CHR 0x22] @ ''example.com/fn'' @ [CHR 0x22] @
        ''\<newline>function = '' @ [CHR 0x22] @ ''Receiver'' @ [CHR 0x22] @
        ''\<newline>protocol = '' @ [CHR 0x22] @ ''http'' @ [CHR 0x22] @ ''\<newline>'')"
    unfolding plan old pkg name proto block .
  with h1 h2 h3 h4 h6 show ?thesis
    unfolding deets_def by blast
qed

subsection \<open>What writePlan does to the plan file\<close>

text \<open>
  Claim C8. \<open>writePlan\<close> opens the plan file for appending, creating it when it is
  missing. Whatever happens, no other file changes, and what the plan file held stays at
  its start, followed by a block that is a prefix of the rendered descriptor; once the
  file is open, its content is the old content followed by such a block; and when the
  write succeeds too, \<open>writePlan\<close> returns nil and the block is the whole descriptor.
\<close>

theorem writePlan_appends:
  "(\<forall>q. q \<noteq> p \<longrightarrow> fst (snd (writePlan w p proto d)) q = files w q)
   \<and> (\<forall>c. files w p = Some c \<longrightarrow>
         (\<exists>blk. prefix blk (renderPlan (Package d) (FunctionDetails.Name d) proto)
            \<and> fst (snd (writePlan w p proto d)) p = Some (c @ blk)))
   \<and> (OpenFile w p = None \<longrightarrow>
         (\<exists>blk. prefix blk (renderPlan (Package d) (FunctionDetails.Name d) proto)
            \<and> fst (snd (writePlan w p proto d)) p = Some (contentOf (files w) p @ blk)))
   \<and> (OpenFile w p = None
        \<and> WriteString w p (renderPlan (Package d) (FunctionDetails.Name d) proto) = None \<longrightarrow>
         snd (snd (writePlan w p proto d)) = Inr None
       \<and> fst (snd (writePlan w p proto d)) p =
           Some (contentOf (files w) p @ renderPlan (Package d) (FunctionDetails.Name d) proto))"
proof -
  have take: "prefix (take n xs) xs" for n and xs :: string
    by (rule take_is_prefix)
  show ?thesis
    using take
    by (auto simp: writePlan_def Let_def contentOf_def split: option.splits prod.splits)
qed

theorem writePlan_appends_witness:
  "files exampleWorld ''/plan.toml'' = Some ''# plan\<newline>''
   \<and> OpenFile exampleWorld ''/plan.toml'' = None
   \<and> WriteString exampleWorld ''/plan.toml'' (renderPlan ''example.com/fn'' ''Receiver'' ''http'') = None
   \<and> fst (snd (writePlan exampleWorld ''/plan.toml'' ''http''
         \<lparr>Name = ''Receiver'', Package = ''example.com/fn'', Signature = validFunctions ! 5\<rparr>))
         ''/plan.toml''
       = Some (''# plan\<newline>'' @ renderPlan ''example.com/fn'' ''Receiver'' ''http'')
   \<and> fst (snd (writePlan exampleWorld ''/plan.toml'' ''http''
         \<lparr>Name = ''Receiver'', Package = ''example.com/fn'', Signature = validFunctions ! 5\<rparr>))
         ''/etc/passwd''
       = files exampleWorld ''/etc/passwd''"
proof -
  define d where
    "d = \<lparr>Name = ''Receiver'', Package = ''example.com/fn'', Signature = validFunctions ! 5\<rparr>"
  have block: "renderPlan (Package d) (FunctionDetails.Name d) ''http''
      = renderPlan ''example.com/fn'' ''Receiver'' ''http''"
    by (simp add: d_def)
  have old: "files exampleWorld ''/plan.toml'' = Some ''# plan\<newline>''"
    and content: "contentOf (files exampleWorld) ''/plan.toml'' = ''# plan\<newline>''"
    by (simp_all add: exampleWorld_def contentOf_def)
  have opened: "OpenFile exampleWorld ''/plan.toml'' = None"
    by (simp add: exampleWorld_def)
  have wrote: "WriteString exampleWorld ''/plan.toml''
      (renderPlan (Package d) (FunctionDetails.Name d) ''http'') = None"
    by (simp add: exampleWorld_def)
  have other: "''/etc/passwd'' \<noteq> ''/plan.toml''"
    by simp
  note facts = writePlan_appends [of "''/plan.toml''" exampleWorld "''http''" d]
  from facts [THEN conjunct1, rule_format, OF other]
  have frame: "fst (snd (writePlan exampleWorld ''/plan.toml'' ''http'' d)) ''/etc/passwd''
      = files exampleWorld ''/etc/passwd''" .
  from facts [THEN conjunct2, THEN conjunct2, THEN conjunct2, rule_format, OF conjI [OF opened wrote]]
  have "fst (snd (writePlan exampleWorld ''/plan.toml'' ''http'' d)) ''/plan.toml''
      = Some (contentOf (files exampleWorld) ''/plan.toml''
          @ renderPlan (Package d) (FunctionDetails.Name d) ''http'')"
    by (rule conjunct2)
  then have appended: "fst (snd (writePlan exampleWorld ''/plan.toml'' ''http'' d)) ''/plan.toml''
      = Some (''# plan\<newline>'' @ renderPlan ''example.com/fn'' ''Receiver'' ''http'')"
    unfolding block content .
  from wrote have wrote': "WriteString exampleWorld ''/plan.toml''
      (renderPlan ''example.com/fn'' ''Receiver'' ''http'') = None"
    unfolding block .
  from old opened wrote' appended frame show ?thesis
    unfolding d_def by (intro conjI)
qed

subsection \<open>The module name\<close>

text \<open>
  Claim C9, as amended. When \<^verbatim>\<open>go.mod\<close> opens, \<open>readModuleName\<close> returns, with a nil
  error, the second piece of the first line delivered by the scanner that, cut at every
  single space, has at least two pieces of which the first is \<^verbatim>\<open>module\<close>; when no
  delivered line is of that form it returns the empty string with a nil error, so the
  run does not abort there: the package value is computed from an empty module name and,
  when there are enough arguments and the file pattern is accepted, the loop over the
  files runs.

  The pieces are those of \<^verbatim>\<open>strings.Split(line, " ")\<close>, not the tokens separated by
  white space of the claim as stated: see the counterexample below.
\<close>

theorem readModuleName_first_module_line:
  assumes "goMod w = Inr content"
  shows "snd (readModuleName w) =
      (case find moduleLine (scan_lines content) of
         Some l \<Rightarrow> (strings_Split l CHR '' '' ! 1, None)
       | None \<Rightarrow> ([], None))
    \<and> (find moduleLine (scan_lines content) = None \<longrightarrow>
          snd (readModuleName w) = ([], None)
        \<and> fullGoPackage (mainLocals w) = fullGoPackageOf [] (goPackageOf (envConfig w))
        \<and> (\<forall>fs. 3 \<le> length (Args w)
              \<and> Glob w (goPackageOf (envConfig w) @ ''*.go'') = Inr fs \<longrightarrow>
              main w = logged (mainIntro w) (main_loop w (mainLocals w) fs)))"
proof -
  have sec: "hd (tl ps) = ps ! 1" if "length ps \<ge> 2" for ps :: "string list"
    using that by (cases ps; cases "tl ps") auto
  have found: "hd (tl (strings_Split l CHR '' '')) = strings_Split l CHR '' '' ! 1"
    if "find moduleLine (scan_lines content) = Some l" for l
  proof -
    from that have "moduleLine l" by (auto simp: find_Some_iff)
    then show ?thesis by (intro sec) (simp add: moduleLine_def)
  qed
  have rm: "snd (readModuleName w) =
      (case find moduleLine (scan_lines content) of
         Some l \<Rightarrow> (strings_Split l CHR '' '' ! 1, None)
       | None \<Rightarrow> ([], None))"
    using assms found
    by (simp add: readModuleName_def scanModule_find split: option.splits)
  have rest: "snd (readModuleName w) = ([], None)
        \<and> fullGoPackage (mainLocals w) = fullGoPackageOf [] (goPackageOf (envConfig w))
        \<and> (\<forall>fs. 3 \<le> length (Args w)
              \<and> Glob w (goPackageOf (envConfig w) @ ''*.go'') = Inr fs \<longrightarrow>
              main w = logged (mainIntro w) (main_loop w (mainLocals w) fs))"
    if none: "find moduleLine (scan_lines content) = None"
  proof -
    from rm none have r: "snd (readModuleName w) = ([], None)" by simp
    then have pkg: "fullGoPackage (mainLocals w) = fullGoPackageOf [] (goPackageOf (envConfig w))"
      by (simp add: mainLocals_def)
    have "main w = logged (mainIntro w) (main_loop w (mainLocals w) fs)"
      if "3 \<le> length (Args w)" and "Glob w (goPackageOf (envConfig w) @ ''*.go'') = Inr fs" for fs
    proof -
      from that r have "candidateFiles w = Some fs"
        by (simp add: candidateFiles_def)
      then show ?thesis by (rule main_enters_loop)
    qed
    with r pkg show ?thesis by blast
  qed
  from rm rest show ?thesis by blast
qed

theorem readModuleName_first_module_line_witness:
  "goMod exampleWorld = Inr ''module example.com/fn\<newline>\<newline>go 1.14\<newline>''
   \<and> snd (readModuleName exampleWorld) = (''example.com/fn'', None)
   \<and> goMod noModuleWorld = Inr ''go 1.14\<newline>''
   \<and> find moduleLine (scan_lines ''go 1.14\<newline>'') = None
   \<and> snd (readModuleName noModuleWorld) = ([], None)
   \<and> fullGoPackage (mainLocals noModuleWorld) = []
   \<and> exitCode (main noModuleWorld) = 0"
proof -
  have g1: "goMod exampleWorld = Inr ''module example.com/fn\<newline>\<newline>go 1.14\<newline>''"
    by (simp add: exampleWorld_def)
  have f1: "find moduleLine (scan_lines ''module example.com/fn\<newline>\<newline>go 1.14\<newline>'')
      = Some ''module example.com/fn''"
    by (simp add: run_defs noModuleWorld_def moduleLine_def)
  have p1: "strings_Split ''module example.com/fn'' CHR '' '' ! 1 = ''example.com/fn''"
    by simp
  have g2: "goMod noModuleWorld = Inr ''go 1.14\<newline>''"
    by (simp add: run_defs noModuleWorld_def moduleLine_def)
  have f2: "find moduleLine (scan_lines ''go 1.14\<newline>'') = None"
    by (simp add: run_defs noModuleWorld_def moduleLine_def)
  have pkg: "fullGoPackageOf [] (goPackageOf (envConfig noModuleWorld)) = []"
    by (simp add: run_defs noModuleWorld_def moduleLine_def)
  have exit: "exitCode (main noModuleWorld) = 0"
    by (simp add: run_defs noModuleWorld_def moduleLine_def)
  from readModuleName_first_module_line [OF g1] f1 p1
  have r1: "snd (readModuleName exampleWorld) = (''example.com/fn'', None)"
    by simp
  from readModuleName_first_module_line [OF g2] f2 pkg
  have r2: "snd (readModuleName noModuleWorld) = ([], None)
      \<and> fullGoPackage (mainLocals noModuleWorld) = []"
    by simp
  from g1 r1 g2 f2 r2 exit show ?thesis by blast
qed

text \<open>
  The claim as stated fails on a \<^verbatim>\<open>go.mod\<close> whose module line has two spaces: the
  second token of that line separated by white space is the module path, and the
  function returns the empty string.
\<close>

theorem readModuleName_whitespace_counterexample:
  "goMod spacedModWorld = Inr ''module  example.com/fn\<newline>\<newline>go 1.14\<newline>''
   \<and> scan_lines ''module  example.com/fn\<newline>\<newline>go 1.14\<newline>''
       = [''module  example.com/fn'', [], ''go 1.14'']
   \<and> whitespace_tokens ''module  example.com/fn'' = [''module'', ''example.com/fn'']
   \<and> readModuleName spacedModWorld
       = ([PrintPieces [''module'', [], ''example.com/fn'']], [], None)
   \<and> fst (snd (readModuleName spacedModWorld))
       \<noteq> whitespace_tokens ''module  example.com/fn'' ! 1"
  by (simp add: run_defs spacedModWorld_def whitespace_tokens_def isSpace_def)

subsection \<open>The error value of writePlan\<close>

text \<open>
  Claim C10. \<open>writePlan\<close> never returns an error other than nil. When the plan file
  cannot be opened or the write fails, it ends the process with exit code 100 instead of
  returning. (The message of a failed open formats the third argument; \<open>main\<close> calls
  \<open>writePlan\<close> only after it has checked that there are three, and a run of \<open>main\<close>
  panics only when it has no argument at all, so never inside \<open>writePlan\<close>.) Hence
  \<open>main\<close> never logs that writing the build plan failed.
\<close>

theorem writePlan_never_returns_error:
  "snd (snd (writePlan w p proto d)) \<noteq> Inr (Some e)
   \<and> (3 \<le> length (Args w)
        \<and> \<not> (OpenFile w p = None
              \<and> WriteString w p (renderPlan (Package d) (FunctionDetails.Name d) proto) = None) \<longrightarrow>
        snd (snd (writePlan w p proto d)) = Inl 100)
   \<and> (RuntimePanic \<in> set (events (main w)) \<longrightarrow> Args w = [])
   \<and> LogWritePlanFailed e \<notin> set (events (main w))"
proof -
  have pieces: "x \<notin> set (fst (readModuleName w))" if "\<And>ps. x \<noteq> PrintPieces ps" for x
    using readModuleName_events [of w] that by auto
  have loop1: "LogWritePlanFailed e \<notin> set (events (main_loop w v fs))" for v fs
    by (rule main_loop_events) (simp_all add: writePlan_def Let_def split: option.splits prod.splits)
  have loop2: "RuntimePanic \<notin> set (events (main_loop w v fs))" if "3 \<le> length (Args w)" for v fs
    using that
    by (intro main_loop_events) (simp_all add: writePlan_def Let_def split: option.splits prod.splits)
  have log: "LogWritePlanFailed e \<notin> set (events (main w))"
    using pieces [of "LogWritePlanFailed e"] loop1
    by (cases "readModuleName w")
       (auto simp: main_def Let_def printSupportedFunctionsAndExit_def
             split: option.splits sum.splits list.splits)
  have panic: "Args w = []" if "RuntimePanic \<in> set (events (main w))"
  proof (rule ccontr)
    assume "Args w \<noteq> []"
    then have "RuntimePanic \<notin> set (events (main w))"
      using pieces [of RuntimePanic] loop2
      by (cases "readModuleName w")
         (auto simp: main_def Let_def printSupportedFunctionsAndExit_def
               split: option.splits sum.splits list.splits)
    with that show False by simp
  qed
  from log panic writePlan_returns_nil [of w p proto d e] writePlan_failed [of w p d proto]
  show ?thesis by blast
qed

theorem writePlan_never_returns_error_witness:
  "3 \<le> length (Args unwritableWorld)
   \<and> OpenFile unwritableWorld ''/plan.toml'' = Some ''permission denied''
   \<and> snd (snd (writePlan unwritableWorld ''/plan.toml'' ''http''
         \<lparr>Name = ''Receiver'', Package = ''example.com/fn'', Signature = validFunctions ! 5\<rparr>))
       = Inl 100
   \<and> LogWritePlanFailed ''permission denied'' \<notin> set (events (main unwritableWorld))"
proof -
  have args: "3 \<le> length (Args unwritableWorld)"
    by (simp add: run_defs unwritableWorld_def)
  have closed: "OpenFile unwritableWorld ''/plan.toml'' = Some ''permission denied''"
    by (simp add: run_defs unwritableWorld_def)
  from writePlan_never_returns_error
    [of unwritableWorld "''/plan.toml''" "''http''"
        "\<lparr>Name = ''Receiver'', Package = ''example.com/fn'', Signature = validFunctions ! 5\<rparr>"
        "''permission denied''"]
    args closed
  show ?thesis by simp
qed

end
